theory Spec2Isabelle
  imports Complex_Main "HOL-Library.Log_Nat"
begin

section \<open>JavaScript numbers\<close>

text \<open>
  A JavaScript number is an IEEE 754 binary64 value: NaN, one of the two infinities, or a
  finite value, carried here by the rational it denotes. Every arithmetic result is rounded
  to the nearest binary64 value, a tie going to the even significand, and overflows to an
  infinity; \<open>fl\<close> is that rounding. The sign of zero is not modelled. Timestamps
  (\<open>Date.now()\<close>, milliseconds) are integers and are modelled as \<open>int\<close>.
\<close>

datatype jsnum = NaN | PosInf | NegInf | Fin rat

definition signed_inf :: "bool \<Rightarrow> jsnum" where
  "signed_inf negative = (if negative then NegInf else PosInf)"

text \<open>The binary exponent of a positive rational: \<open>2 powi ilog2 a \<le> a < 2 powi (ilog2 a + 1)\<close>.\<close>

definition ilog2 :: "rat \<Rightarrow> int" where
  "ilog2 a = (if 1 \<le> a then int (floorlog 2 (nat \<lfloor>a\<rfloor>)) - 1
              else - int (floorlog 2 (nat (\<lceil>1 / a\<rceil> - 1))))"

definition round_half_even :: "rat \<Rightarrow> int" where
  "round_half_even y =
     (let f = \<lfloor>y\<rfloor>; d = y - of_int f in
      if d < 1 / 2 then f else if 1 / 2 < d then f + 1 else if even f then f else f + 1)"

text \<open>
  Rounding to binary64: a significand of 53 bits, the exponent of the last bit no lower
  than \<open>-1074\<close> (subnormal numbers), and an infinity from \<open>2 ^ 1024\<close> on.
\<close>

definition fl :: "rat \<Rightarrow> jsnum" where
  "fl x =
     (if x = 0 then Fin 0
      else
        (let a = \<bar>x\<bar>;
             e = max (ilog2 a - 52) (- 1074);
             v = of_int (round_half_even (a / 2 powi e)) * 2 powi e
         in if 2 ^ 1024 \<le> v then signed_inf (x < 0) else Fin (if x < 0 then - v else v)))"

text \<open>\<open>!x\<close> on a number is true exactly for 0 and NaN.\<close>

definition truthy :: "jsnum \<Rightarrow> bool" where
  "truthy x = (case x of NaN \<Rightarrow> False | Fin q \<Rightarrow> q \<noteq> 0 | PosInf \<Rightarrow> True | NegInf \<Rightarrow> True)"

definition isNaN :: "jsnum \<Rightarrow> bool" where
  "isNaN x = (x = NaN)"

text \<open>\<open>x < 0\<close>; every comparison with NaN is false.\<close>

definition lt_zero :: "jsnum \<Rightarrow> bool" where
  "lt_zero x = (case x of NaN \<Rightarrow> False | PosInf \<Rightarrow> False | NegInf \<Rightarrow> True | Fin q \<Rightarrow> q < 0)"

text \<open>The operator \<open>/\<close>: the exact quotient, rounded.\<close>

definition js_div :: "jsnum \<Rightarrow> jsnum \<Rightarrow> jsnum" where
  "js_div a b =
     (case a of
        NaN \<Rightarrow> NaN
      | Fin x \<Rightarrow>
          (case b of
             NaN \<Rightarrow> NaN
           | Fin y \<Rightarrow> if y = 0 then (if x = 0 then NaN else signed_inf (x < 0)) else fl (x / y)
           | PosInf \<Rightarrow> Fin 0
           | NegInf \<Rightarrow> Fin 0)
      | PosInf \<Rightarrow>
          (case b of Fin y \<Rightarrow> signed_inf (y < 0) | NaN \<Rightarrow> NaN | PosInf \<Rightarrow> NaN | NegInf \<Rightarrow> NaN)
      | NegInf \<Rightarrow>
          (case b of Fin y \<Rightarrow> signed_inf (\<not> y < 0) | NaN \<Rightarrow> NaN | PosInf \<Rightarrow> NaN | NegInf \<Rightarrow> NaN))"

text \<open>The operator \<open>*\<close>: the exact product, rounded; zero times an infinity is NaN.\<close>

definition js_mul :: "jsnum \<Rightarrow> jsnum \<Rightarrow> jsnum" where
  "js_mul a b =
     (case a of
        NaN \<Rightarrow> NaN
      | Fin x \<Rightarrow>
          (case b of
             NaN \<Rightarrow> NaN
           | Fin y \<Rightarrow> fl (x * y)
           | PosInf \<Rightarrow> if x = 0 then NaN else signed_inf (x < 0)
           | NegInf \<Rightarrow> if x = 0 then NaN else signed_inf (\<not> x < 0))
      | PosInf \<Rightarrow>
          (case b of
             NaN \<Rightarrow> NaN
           | Fin y \<Rightarrow> if y = 0 then NaN else signed_inf (y < 0)
           | PosInf \<Rightarrow> PosInf
           | NegInf \<Rightarrow> NegInf)
      | NegInf \<Rightarrow>
          (case b of
             NaN \<Rightarrow> NaN
           | Fin y \<Rightarrow> if y = 0 then NaN else signed_inf (\<not> y < 0)
           | PosInf \<Rightarrow> NegInf
           | NegInf \<Rightarrow> PosInf))"

text \<open>
  \<open>Math.round\<close>: the nearest integer, a tie going up. It is exact: the integer nearest
  to a binary64 value is a binary64 value.
\<close>

definition Math_round :: "jsnum \<Rightarrow> jsnum" where
  "Math_round x = (case x of Fin q \<Rightarrow> Fin (of_int \<lfloor>q + 1 / 2\<rfloor>) | NaN \<Rightarrow> NaN | PosInf \<Rightarrow> PosInf | NegInf \<Rightarrow> NegInf)"

section \<open>Rate tables and the cache\<close>

text \<open>
  A rate table is a JavaScript object from currency code to number. \<open>fallbackRates\<close>,
  \<open>exchangeRates\<close>, \<open>lastFetchTime\<close> and \<open>CACHE_DURATION\<close> are the module-level
  bindings of \<open>app/index.js\<close>; the two mutable ones form the cache state. A decimal
  literal of the source denotes the binary64 value nearest to it: 1.0 and 88.00 are exact,
  0.92, 0.78, 156.3 and 3.67 are not.
\<close>

type_synonym table = "string \<rightharpoonup> jsnum"

definition fallbackRates :: table where
  "fallbackRates =
     [''USD'' \<mapsto> Fin 1, ''INR'' \<mapsto> Fin 88, ''EUR'' \<mapsto> fl (92 / 100),
      ''GBP'' \<mapsto> fl (78 / 100), ''JPY'' \<mapsto> fl (1563 / 10), ''AED'' \<mapsto> fl (367 / 100)]"

record cache_state =
  exchangeRates :: table
  lastFetchTime :: int

definition initial_state :: cache_state where
  "initial_state = \<lparr>exchangeRates = fallbackRates, lastFetchTime = 0\<rparr>"

definition CACHE_DURATION :: int where
  "CACHE_DURATION = 10 * 60 * 1000"

section \<open>Fetching the rates\<close>

text \<open>
  What the provider request does once it is issued, as seen by the callbacks registered in
  \<open>fetchExchangeRates\<close>: the request's \<open>error\<close> event, its timeout callback, or the
  response's \<open>end\<close> event with the collected body. For the body:
  \<^item> \<open>Unparseable\<close>: \<open>JSON.parse(data)\<close> throws;
  \<^item> \<open>JsonNull\<close>: the body parses to \<open>null\<close>, so reading \<open>apiResponse.rates\<close> throws;
  \<^item> \<open>NoRates\<close>: the parsed value has no \<open>rates\<close> property, or a falsy one;
  \<^item> \<open>Rates r\<close>: \<open>apiResponse.rates\<close> is truthy and \<open>r\<close> holds the properties that
    the object spread copies from it (rates that are JSON numbers).
\<close>

datatype response_body = Unparseable | JsonNull | NoRates | Rates table

datatype fetch_outcome = RequestError | RequestTimeout | ResponseEnd response_body

text \<open>How the promise returned by \<open>fetchExchangeRates\<close> settles.\<close>

datatype 'a settlement = Resolved 'a | Rejected string

record fetch_result =
  promise :: "table settlement"
  new_state :: cache_state
  requested :: bool

text \<open>
  \<open>fetchExchangeRates\<close>, called at time \<open>now\<close> in cache state \<open>s\<close>; \<open>oc\<close> is what the
  provider request does if it is issued. \<open>requested\<close> records whether \<open>https.get\<close> was
  called. The console output is left out.
\<close>

definition fetchExchangeRates :: "int \<Rightarrow> fetch_outcome \<Rightarrow> cache_state \<Rightarrow> fetch_result" where
  "fetchExchangeRates now oc s =
     (if now - lastFetchTime s < CACHE_DURATION
      then \<lparr>promise = Resolved (exchangeRates s), new_state = s, requested = False\<rparr>
      else
        (case oc of
           ResponseEnd body \<Rightarrow>
             (case body of
                Rates r \<Rightarrow>
                  (let s' = \<lparr>exchangeRates = [''USD'' \<mapsto> Fin 1] ++ r, lastFetchTime = now\<rparr>
                   in \<lparr>promise = Resolved (exchangeRates s'), new_state = s', requested = True\<rparr>)
              | NoRates \<Rightarrow> \<lparr>promise = Resolved fallbackRates, new_state = s, requested = True\<rparr>
              | Unparseable \<Rightarrow> \<lparr>promise = Resolved fallbackRates, new_state = s, requested = True\<rparr>
              | JsonNull \<Rightarrow> \<lparr>promise = Resolved fallbackRates, new_state = s, requested = True\<rparr>)
         | RequestError \<Rightarrow> \<lparr>promise = Resolved fallbackRates, new_state = s, requested = True\<rparr>
         | RequestTimeout \<Rightarrow> \<lparr>promise = Resolved fallbackRates, new_state = s, requested = True\<rparr>))"

text \<open>The failed fetch attempts: every outcome but a response carrying rates.\<close>

definition is_failure :: "fetch_outcome \<Rightarrow> bool" where
  "is_failure oc = (case oc of ResponseEnd (Rates r) \<Rightarrow> False | _ \<Rightarrow> True)"

text \<open>
  Repeated calls, one after the other: each call is given its time and what the provider
  does if that call issues a request; the state left by a call is the state of the next.
\<close>

fun run_calls :: "cache_state \<Rightarrow> (int \<times> fetch_outcome) list \<Rightarrow> fetch_result list" where
  "run_calls s [] = []"
| "run_calls s ((now, oc) # cs) =
     (let r = fetchExchangeRates now oc s in r # run_calls (new_state r) cs)"

section \<open>Converting\<close>

text \<open>
  \<open>convertCurrency\<close> returns a number or \<open>null\<close>; the two places that return \<open>null\<close>
  are kept apart here: \<open>NullInvalid\<close> is the \<open>return null\<close> after the rate lookup,
  \<open>NullCaught\<close> the one in the \<open>catch\<close> block.
\<close>

datatype conv_result = Converted jsnum | NullInvalid | NullCaught

text \<open>\<open>!v\<close> for a looked-up property: \<open>None\<close> is \<open>undefined\<close>.\<close>

definition js_not :: "jsnum option \<Rightarrow> bool" where
  "js_not v = (case v of None \<Rightarrow> True | Some x \<Rightarrow> \<not> truthy x)"

text \<open>The body of \<open>convertCurrency\<close> after the \<open>await\<close>, on the table \<open>rates\<close>.\<close>

definition convert_with :: "table \<Rightarrow> string \<Rightarrow> string \<Rightarrow> jsnum \<Rightarrow> conv_result" where
  "convert_with rates from to amount =
     (let fromRate = rates from; toRate = rates to in
      if js_not fromRate \<or> js_not toRate then NullInvalid
      else
        (case (fromRate, toRate) of
           (Some f, Some t) \<Rightarrow>
             (let usdAmount = js_div amount f;
                  result = js_mul usdAmount t
              in Converted (js_div (Math_round (js_mul result (Fin 100))) (Fin 100)))
         | _ \<Rightarrow> NullInvalid))"

definition convertCurrency ::
  "string \<Rightarrow> string \<Rightarrow> jsnum \<Rightarrow> int \<Rightarrow> fetch_outcome \<Rightarrow> cache_state
     \<Rightarrow> conv_result \<times> cache_state \<times> bool" where
  "convertCurrency from to amount now oc s =
     (let r = fetchExchangeRates now oc s in
      (case promise r of
         Resolved rates \<Rightarrow> convert_with rates from to amount
       | Rejected e \<Rightarrow> NullCaught,
       new_state r, requested r))"

text \<open>
  Rounding to two decimal places, half up, as the specification words it, on exact values.
\<close>

definition round_half_up_2dp :: "rat \<Rightarrow> rat" where
  "round_half_up_2dp x = of_int \<lfloor>x * 100 + 1 / 2\<rfloor> / 100"

section \<open>The HTTP handler\<close>

text \<open>
  A query parameter as \<open>url.parse(req.url, true).query\<close> gives it: missing, a string,
  or an array of strings when the parameter is repeated.
\<close>

datatype qparam = Absent | Single string | Multi "string list"

definition q_not :: "qparam \<Rightarrow> bool" where
  "q_not p = (case p of Absent \<Rightarrow> True | Single v \<Rightarrow> v = [] | Multi vs \<Rightarrow> False)"

record request =
  req_method :: string
  pathname :: string
  q_from :: qparam
  q_to :: qparam
  q_amount :: qparam

datatype source_kind = Live | Fallback

text \<open>
  The responses: the status alone (OPTIONS), the page, the health and rates-info bodies, an
  \<open>{error}\<close> body with its status, and the conversion body
  \<open>{from, to, amount, result, source}\<close>.
\<close>

datatype response =
    Empty nat
  | HomePage
  | HealthOk
  | RatesInfo bool "int option" table
  | ErrorJson nat string
  | ConvertJson string string jsnum jsnum source_kind

definition status_code :: "response \<Rightarrow> nat" where
  "status_code r =
     (case r of
        Empty c \<Rightarrow> c
      | HomePage \<Rightarrow> 200
      | HealthOk \<Rightarrow> 200
      | RatesInfo l u t \<Rightarrow> 200
      | ErrorJson c m \<Rightarrow> c
      | ConvertJson f t a x k \<Rightarrow> 200)"

text \<open>\<open>(Date.now() - lastFetchTime) < CACHE_DURATION && lastFetchTime > 0\<close>.\<close>

definition is_live :: "int \<Rightarrow> cache_state \<Rightarrow> bool" where
  "is_live t s = (t - lastFetchTime s < CACHE_DURATION \<and> lastFetchTime s > 0)"

definition source_of :: "int \<Rightarrow> cache_state \<Rightarrow> source_kind" where
  "source_of t s = (if is_live t s then Live else Fallback)"

text \<open>
  The request handler. \<open>parseFloat\<close> and \<open>toUpperCase\<close> are the runtime's functions and
  are parameters. \<open>now\<close> is the clock when the request is handled, \<open>later\<close> the clock
  read again for the \<open>source\<close> field once the conversion has returned. Calling
  \<open>toUpperCase\<close> on an array throws, which the handler's \<open>catch\<close> answers with 500. The
  result is the response, the cache state afterwards and whether the provider was called.
\<close>

definition server ::
  "(qparam \<Rightarrow> jsnum) \<Rightarrow> (string \<Rightarrow> string) \<Rightarrow> request \<Rightarrow> int \<Rightarrow> int \<Rightarrow> fetch_outcome
     \<Rightarrow> cache_state \<Rightarrow> response \<times> cache_state \<times> bool" where
  "server parseFloat toUpperCase req now later oc s =
     (if req_method req = ''OPTIONS'' then (Empty 200, s, False)
      else if pathname req = ''/'' then (HomePage, s, False)
      else if pathname req = ''/health'' then (HealthOk, s, False)
      else if pathname req = ''/rates-info'' then
        (RatesInfo (is_live now s)
           (if lastFetchTime s > 0 then Some (lastFetchTime s) else None)
           (exchangeRates s), s, False)
      else if pathname req = ''/convert'' then
        (if q_not (q_from req) \<or> q_not (q_to req) \<or> q_not (q_amount req)
         then (ErrorJson 400 ''Missing required parameters: from, to, amount'', s, False)
         else
           (let numAmount = parseFloat (q_amount req) in
            if isNaN numAmount \<or> lt_zero numAmount
            then (ErrorJson 400 ''Amount must be a valid positive number'', s, False)
            else
              (case (q_from req, q_to req) of
                 (Single f, Single t) \<Rightarrow>
                   (case convertCurrency (toUpperCase f) (toUpperCase t) numAmount now oc s of
                      (Converted x, s', rq) \<Rightarrow>
                        (ConvertJson (toUpperCase f) (toUpperCase t) numAmount x
                           (source_of later s'), s', rq)
                    | (NullInvalid, s', rq) \<Rightarrow> (ErrorJson 400 ''Invalid currency code'', s', rq)
                    | (NullCaught, s', rq) \<Rightarrow> (ErrorJson 400 ''Invalid currency code'', s', rq))
               | _ \<Rightarrow> (ErrorJson 500 ''Internal server error'', s, False))))
      else (ErrorJson 404 ''Not found'', s, False))"

section \<open>Auxiliary facts\<close>

text \<open>A fetch attempt that fails resolves with the fallback table and returns the state it was given.\<close>

lemma failure_result:
  "\<not> now - lastFetchTime s < CACHE_DURATION \<Longrightarrow> is_failure oc \<Longrightarrow>
   fetchExchangeRates now oc s = \<lparr>promise = Resolved fallbackRates, new_state = s, requested = True\<rparr>"
  by (auto simp: fetchExchangeRates_def is_failure_def
           split: fetch_outcome.splits response_body.splits)








text \<open>Evaluating the floor of a quotient of numerals.\<close>

lemma floor_rat_numeral: "\<lfloor>(numeral a :: rat) / numeral b\<rfloor> = numeral a div numeral b"
  using floor_divide_of_int_eq [of "numeral a" "numeral b", where ?'a = rat] by simp

section \<open>Rounding to binary64\<close>

text \<open>The exponent found by \<open>ilog2\<close> is the right one, and it is the only one.\<close>

lemma ilog2_bounds_ge1:
  assumes "1 \<le> a"
  shows "2 powi (ilog2 a) \<le> a \<and> a < 2 powi (ilog2 a + 1)"
proof -
  define n where "n = nat \<lfloor>a\<rfloor>"
  define k where "k = floorlog 2 n"
  have fa: "1 \<le> \<lfloor>a\<rfloor>" using assms by simp
  then have n: "0 < n" "of_nat n = (of_int \<lfloor>a\<rfloor> :: rat)" by (simp_all add: n_def)
  from floorlog_bounds [of n 2] n(1)
  have b: "2 ^ (k - 1) \<le> n" "n < 2 ^ k" by (simp_all add: k_def)
  have kpos: "0 < k" using b(2) n(1) by (cases k) auto
  have "(of_nat (2 ^ (k - 1)) :: rat) \<le> of_nat n" using b(1) by (simp only: of_nat_le_iff)
  then have lo: "(2::rat) ^ (k - 1) \<le> of_nat n" by simp
  have "Suc n \<le> 2 ^ k" using b(2) by simp
  then have "(of_nat (Suc n) :: rat) \<le> of_nat (2 ^ k)" by (simp only: of_nat_le_iff)
  then have hi: "(of_nat n :: rat) + 1 \<le> 2 ^ k" by simp
  have il: "ilog2 a = int (k - 1)" using assms kpos by (simp add: ilog2_def n_def k_def)
  have il1: "ilog2 a + 1 = int k" using kpos by (simp add: il)
  have "of_int \<lfloor>a\<rfloor> \<le> a" "a < of_int \<lfloor>a\<rfloor> + 1" by linarith+
  with lo hi n(2) show ?thesis unfolding il1 unfolding il power_int_of_nat by linarith
qed

lemma ilog2_bounds_lt1:
  assumes "0 < a" "a < 1"
  shows "2 powi (ilog2 a) \<le> a \<and> a < 2 powi (ilog2 a + 1)"
proof -
  define y where "y = 1 / a"
  define m where "m = nat (\<lceil>y\<rceil> - 1)"
  define k where "k = floorlog 2 m"
  have y1: "1 < y" using assms by (simp add: y_def)
  then have c2: "2 \<le> \<lceil>y\<rceil>" by (simp add: le_ceiling_iff) 
  then have m: "0 < m" "(of_nat m :: rat) = of_int \<lceil>y\<rceil> - 1" by (simp_all add: m_def)
  from floorlog_bounds [of m 2] m(1)
  have b: "2 ^ (k - 1) \<le> m" "m < 2 ^ k" by (simp_all add: k_def)
  have kpos: "0 < k" using b(2) m(1) by (cases k) auto
  have "(of_nat (2 ^ (k - 1)) :: rat) \<le> of_nat m" using b(1) by (simp only: of_nat_le_iff)
  then have lo: "(2::rat) ^ (k - 1) \<le> of_nat m" by simp
  have "Suc m \<le> 2 ^ k" using b(2) by simp
  then have "(of_nat (Suc m) :: rat) \<le> of_nat (2 ^ k)" by (simp only: of_nat_le_iff)
  then have hi: "(of_nat m :: rat) + 1 \<le> 2 ^ k" by simp
  have cy: "of_int \<lceil>y\<rceil> - 1 < y" "y \<le> of_int \<lceil>y\<rceil>" by linarith+
  have ylo: "2 ^ (k - 1) < y" and yhi: "y \<le> 2 ^ k" using lo hi m(2) cy by linarith+
  have il: "ilog2 a = - int k" using assms by (simp add: ilog2_def m_def k_def y_def)
  have a: "a = 1 / y" using assms by (simp add: y_def)
  have pk: "(0::rat) < 2 ^ k" "(0::rat) < 2 ^ (k - 1)" by simp_all
  have g1: "1 / 2 ^ k \<le> a" unfolding a using yhi y1 pk
    by (simp add: frac_le)
  have g2: "a < 1 / 2 ^ (k - 1)" unfolding a using ylo pk
    by (simp add: frac_less2)
  have e1: "(2::rat) powi (- int k) = 1 / 2 ^ k" by (simp add: power_int_minus_divide)
  have "- int k + 1 = - int (k - 1)" using kpos by simp
  then have e2: "(2::rat) powi (- int k + 1) = 1 / 2 ^ (k - 1)"
    by (simp only: power_int_minus_divide power_int_of_nat)
  show ?thesis unfolding il e1 e2 using g1 g2 by simp
qed

lemma ilog2_bounds:
  "0 < a \<Longrightarrow> 2 powi (ilog2 a) \<le> a \<and> a < 2 powi (ilog2 a + 1)"
  using ilog2_bounds_ge1 [of a] ilog2_bounds_lt1 [of a] by (cases "1 \<le> a") auto

lemma ilog2_eqI:
  assumes "0 < a" "2 powi k \<le> a" "a < 2 powi (k + 1)"
  shows "ilog2 a = k"
proof (rule ccontr)
  assume ne: "ilog2 a \<noteq> k"
  from ilog2_bounds [OF assms(1)]
  have b: "2 powi (ilog2 a) \<le> a" "a < 2 powi (ilog2 a + 1)" by simp_all
  show False
  proof (cases "ilog2 a < k")
    case True
    then have "(2::rat) powi (ilog2 a + 1) \<le> 2 powi k" by (intro power_int_increasing) simp_all
    with b(2) assms(2) show False by linarith
  next
    case False
    with ne have "k + 1 \<le> ilog2 a" by simp
    then have "(2::rat) powi (k + 1) \<le> 2 powi (ilog2 a)" by (intro power_int_increasing) simp_all
    with b(1) assms(3) show False by linarith
  qed
qed

text \<open>Rounding moves a value by at most half a unit in the last place.\<close>

lemma round_half_even_error: "\<bar>of_int (round_half_even y) - y\<bar> \<le> 1 / 2"
proof -
  have "of_int \<lfloor>y\<rfloor> \<le> y" "y < of_int \<lfloor>y\<rfloor> + 1" by linarith+
  then show ?thesis by (auto simp: round_half_even_def Let_def) 
qed

text \<open>
  \<open>fl\<close> at a positive value whose exponent is known, and the error of \<open>fl\<close>: a relative
  error of \<open>2 powi - 53\<close>, or half the smallest subnormal number.
\<close>

lemma fl_pos_eval:
  assumes "0 < x" "2 powi k \<le> x" "x < 2 powi (k + 1)"
  shows "fl x =
          (if (2::rat) ^ 1024 \<le> of_int (round_half_even (x / 2 powi (max (k - 52) (- 1074))))
                            * 2 powi (max (k - 52) (- 1074))
           then PosInf
           else Fin (of_int (round_half_even (x / 2 powi (max (k - 52) (- 1074))))
                       * 2 powi (max (k - 52) (- 1074))))"
proof -
  have "ilog2 x = k" using assms by (rule ilog2_eqI)
  then show ?thesis using assms(1) by (simp add: fl_def Let_def signed_inf_def)
qed

lemma round_half_even_nonneg: "0 \<le> y \<Longrightarrow> 0 \<le> round_half_even y"
  by (auto simp: round_half_even_def Let_def)

lemma fl_error:
  assumes "0 \<le> x" "x \<le> 2 ^ 1000"
  shows "\<exists>y. fl x = Fin y \<and> 0 \<le> y \<and> \<bar>y - x\<bar> \<le> x / 2 ^ 53 + 1 / 2 ^ 1075"
proof (cases "x = 0")
  case True
  then show ?thesis by (simp add: fl_def)
next
  case False
  with assms have xpos: "0 < x" by simp
  define k where "k = ilog2 x"
  define e where "e = max (k - 52) (- 1074)"
  define m where "m = round_half_even (x / 2 powi e)"
  define v :: rat where "v = of_int m * 2 powi e"
  have pe: "(0::rat) < 2 powi e" by simp
  have klo: "2 powi k \<le> x" using ilog2_bounds [OF xpos] by (simp add: k_def)
  have "\<bar>of_int m - x / 2 powi e\<bar> \<le> 1 / 2" unfolding m_def by (rule round_half_even_error)
  then have "\<bar>of_int m - x / 2 powi e\<bar> * 2 powi e \<le> 1 / 2 * 2 powi e"
    using pe by (intro mult_right_mono) simp_all
  moreover have "\<bar>of_int m - x / 2 powi e\<bar> * 2 powi e = \<bar>v - x\<bar>"
  proof -
    have "v - x = (of_int m - x / 2 powi e) * 2 powi e"
      using pe by (simp add: v_def field_simps)
    then show ?thesis using pe by (simp add: abs_mult)
  qed
  ultimately have err: "\<bar>v - x\<bar> \<le> 2 powi e / 2" by simp
  have ebound: "2 powi e / 2 \<le> x / 2 ^ 53 + 1 / 2 ^ 1075"
  proof (cases "- 1074 \<le> k - 52")
    case True
    then have "e = k - 52" by (simp add: e_def)
    then have "(2::rat) powi e = 2 powi k / 2 ^ 52" by (simp add: power_int_diff)
    then have "(2::rat) powi e / 2 \<le> x / 2 ^ 53" using klo by simp
    moreover have "(0::rat) \<le> 1 / 2 ^ 1075" by simp
    ultimately show ?thesis by linarith
  next
    case False
    then have "e = - 1074" by (simp add: e_def)
    then have "(2::rat) powi e / 2 = 1 / 2 ^ 1075" by (simp add: power_int_minus_divide)
    moreover have "0 \<le> x / 2 ^ 53" using assms(1) by simp
    ultimately show ?thesis by linarith
  qed
  have mnn: "0 \<le> m" unfolding m_def using xpos pe by (intro round_half_even_nonneg) simp
  then have vnn: "0 \<le> v" using pe by (simp add: v_def)
  have verr: "\<bar>v - x\<bar> \<le> x / 2 ^ 53 + 1 / 2 ^ 1075" using err ebound by linarith
  have "x / 2 ^ 53 \<le> x / 1" using assms(1) by (intro divide_left_mono) simp_all
  moreover have "(1::rat) / 2 ^ 1075 \<le> 1" by simp
  ultimately have "v \<le> 2 ^ 1000 + 2 ^ 1000 + 1" using verr assms(2) by linarith
  also have "\<dots> < (2::rat) ^ 1024" by simp
  finally have vlt: "v < 2 ^ 1024" .
  have "fl x = Fin v"
    using xpos vlt by (simp add: fl_def Let_def k_def e_def m_def v_def)
  with vnn verr show ?thesis by blast
qed

lemma fl_eval:
  assumes "0 < x" "2 powi k \<le> x" "x < 2 powi (k + 1)"
    and "round_half_even (x / 2 powi (max (k - 52) (- 1074))) = m"
    and "of_int m * 2 powi (max (k - 52) (- 1074)) = y"
    and "y < 2 ^ 1024"
  shows "fl x = Fin y"
  using fl_pos_eval [OF assms(1,2,3)] assms(4,5,6) by simp

lemma fl_eval_inf:
  assumes "0 < x" "2 powi k \<le> x" "x < 2 powi (k + 1)"
    and "round_half_even (x / 2 powi (max (k - 52) (- 1074))) = m"
    and "(2::rat) ^ 1024 \<le> of_int m * 2 powi (max (k - 52) (- 1074))"
  shows "fl x = PosInf"
  using fl_pos_eval [OF assms(1,2,3)] assms(4,5) by simp





section \<open>Failed fetches and the cache state\<close>

text \<open>
  Claim C9. A fetch attempt that fails leaves the cache state as it was: both
  \<open>exchangeRates\<close> (so a live table fetched earlier stays in the cache variable) and
  \<open>lastFetchTime\<close> are unchanged; only the value the promise resolves with is the
  fallback table.
\<close>

theorem failed_fetch_keeps_state:
  assumes "\<not> now - lastFetchTime s < CACHE_DURATION" and "is_failure oc"
  shows "new_state (fetchExchangeRates now oc s) = s
       \<and> exchangeRates (new_state (fetchExchangeRates now oc s)) = exchangeRates s
       \<and> lastFetchTime (new_state (fetchExchangeRates now oc s)) = lastFetchTime s
       \<and> promise (fetchExchangeRates now oc s) = Resolved fallbackRates"
  using assms
  by (auto simp: fetchExchangeRates_def is_failure_def
           split: fetch_outcome.splits response_body.splits)

theorem failed_fetch_keeps_state_witness:
  "\<not> 2000000 - lastFetchTime \<lparr>exchangeRates = [''USD'' \<mapsto> Fin 1, ''INR'' \<mapsto> Fin 85], lastFetchTime = 1000000\<rparr> < CACHE_DURATION
   \<and> is_failure RequestTimeout
   \<and> exchangeRates (new_state (fetchExchangeRates 2000000 RequestTimeout
         \<lparr>exchangeRates = [''USD'' \<mapsto> Fin 1, ''INR'' \<mapsto> Fin 85], lastFetchTime = 1000000\<rparr>)) ''INR'' = Some (Fin 85)
   \<and> lastFetchTime (new_state (fetchExchangeRates 2000000 RequestTimeout
         \<lparr>exchangeRates = [''USD'' \<mapsto> Fin 1, ''INR'' \<mapsto> Fin 85], lastFetchTime = 1000000\<rparr>)) = 1000000
   \<and> promise (fetchExchangeRates 2000000 RequestTimeout
         \<lparr>exchangeRates = [''USD'' \<mapsto> Fin 1, ''INR'' \<mapsto> Fin 85], lastFetchTime = 1000000\<rparr>) = Resolved fallbackRates"
  using failed_fetch_keeps_state [of 2000000
      "\<lparr>exchangeRates = [''USD'' \<mapsto> Fin 1, ''INR'' \<mapsto> Fin 85], lastFetchTime = 1000000\<rparr>" RequestTimeout]
  by (simp add: CACHE_DURATION_def is_failure_def)

section \<open>The base currency\<close>

text \<open>
  A provider that quotes against another base sends its own rate for USD, and the object
  spread, which comes after \<open>USD: 1.0\<close>, lets that rate replace it.
\<close>

theorem usd_rate_counterexample:
  "requested (fetchExchangeRates 1700000000000
       (ResponseEnd (Rates [''USD'' \<mapsto> Fin 2, ''INR'' \<mapsto> Fin 176])) initial_state)
   \<and> lastFetchTime (new_state (fetchExchangeRates 1700000000000
       (ResponseEnd (Rates [''USD'' \<mapsto> Fin 2, ''INR'' \<mapsto> Fin 176])) initial_state)) = 1700000000000
   \<and> exchangeRates (new_state (fetchExchangeRates 1700000000000
       (ResponseEnd (Rates [''USD'' \<mapsto> Fin 2, ''INR'' \<mapsto> Fin 176])) initial_state)) ''USD'' = Some (Fin 2)
   \<and> exchangeRates (new_state (fetchExchangeRates 1700000000000
       (ResponseEnd (Rates [''USD'' \<mapsto> Fin 2, ''INR'' \<mapsto> Fin 176])) initial_state)) ''USD'' \<noteq> Some (Fin 1)"
  by (simp add: fetchExchangeRates_def initial_state_def CACHE_DURATION_def)

text \<open>
  Claim C1, as the code has it. At start-up USD maps to 1.0. After a successful fetch USD
  maps to the rate the response gives for USD when it gives one, and to 1.0 when the
  response has no USD entry.
\<close>

theorem usd_rate_after_update:
  "exchangeRates initial_state ''USD'' = Some (Fin 1)
   \<and> (\<not> now - lastFetchTime s < CACHE_DURATION \<longrightarrow>
        exchangeRates (new_state (fetchExchangeRates now (ResponseEnd (Rates r)) s)) ''USD''
          = (case r ''USD'' of None \<Rightarrow> Some (Fin 1) | Some v \<Rightarrow> Some v))"
  by (simp add: fetchExchangeRates_def initial_state_def fallbackRates_def map_add_def
           split: option.splits)

theorem usd_rate_after_update_witness:
  "\<not> 1700000000000 - lastFetchTime initial_state < CACHE_DURATION
   \<and> exchangeRates (new_state (fetchExchangeRates 1700000000000
         (ResponseEnd (Rates [''INR'' \<mapsto> Fin 85])) initial_state)) ''USD'' = Some (Fin 1)
   \<and> exchangeRates (new_state (fetchExchangeRates 1700000000000
         (ResponseEnd (Rates [''USD'' \<mapsto> Fin 1, ''INR'' \<mapsto> Fin 85])) initial_state)) ''USD'' = Some (Fin 1)"
  using usd_rate_after_update [of 1700000000000 initial_state "[''INR'' \<mapsto> Fin 85]"]
        usd_rate_after_update [of 1700000000000 initial_state "[''USD'' \<mapsto> Fin 1, ''INR'' \<mapsto> Fin 85]"]
  by (simp add: initial_state_def CACHE_DURATION_def)

section \<open>The cache window\<close>

text \<open>
  Claim C2. A call made less than ten minutes after the last successful fetch resolves with
  the cached table, issues no request and leaves the state alone. Hence, with a provider
  that succeeds, a call that finds the cache stale and a second call within the window
  opened by the first issue one request in total and resolve with the same table.
\<close>

theorem cached_rates_no_fetch:
  "(now - lastFetchTime s < CACHE_DURATION \<and> lastFetchTime s \<noteq> 0 \<longrightarrow>
      fetchExchangeRates now oc s
        = \<lparr>promise = Resolved (exchangeRates s), new_state = s, requested = False\<rparr>)
   \<and> (\<not> t1 - lastFetchTime s < CACHE_DURATION \<and> t2 - t1 < CACHE_DURATION \<longrightarrow>
        map promise (run_calls s [(t1, ResponseEnd (Rates r1)), (t2, ResponseEnd (Rates r2))])
          = [Resolved ([''USD'' \<mapsto> Fin 1] ++ r1), Resolved ([''USD'' \<mapsto> Fin 1] ++ r1)]
        \<and> map requested (run_calls s [(t1, ResponseEnd (Rates r1)), (t2, ResponseEnd (Rates r2))])
          = [True, False]
        \<and> length (filter requested
             (run_calls s [(t1, ResponseEnd (Rates r1)), (t2, ResponseEnd (Rates r2))])) = 1)"
  by (simp add: fetchExchangeRates_def Let_def)

theorem cached_rates_no_fetch_witness:
  "1700000300000 - lastFetchTime \<lparr>exchangeRates = [''USD'' \<mapsto> Fin 1, ''INR'' \<mapsto> Fin 85], lastFetchTime = 1700000000000\<rparr> < CACHE_DURATION
   \<and> lastFetchTime \<lparr>exchangeRates = [''USD'' \<mapsto> Fin 1, ''INR'' \<mapsto> Fin 85], lastFetchTime = 1700000000000\<rparr> \<noteq> 0
   \<and> requested (fetchExchangeRates 1700000300000 RequestError
        \<lparr>exchangeRates = [''USD'' \<mapsto> Fin 1, ''INR'' \<mapsto> Fin 85], lastFetchTime = 1700000000000\<rparr>) = False
   \<and> \<not> 1700000000000 - lastFetchTime initial_state < CACHE_DURATION
   \<and> (1700000599999::int) - 1700000000000 < CACHE_DURATION
   \<and> map requested (run_calls initial_state
          [(1700000000000, ResponseEnd (Rates [''INR'' \<mapsto> Fin 85])),
           (1700000599999, ResponseEnd (Rates [''INR'' \<mapsto> Fin 86]))]) = [True, False]
   \<and> map promise (run_calls initial_state
          [(1700000000000, ResponseEnd (Rates [''INR'' \<mapsto> Fin 85])),
           (1700000599999, ResponseEnd (Rates [''INR'' \<mapsto> Fin 86]))])
        = [Resolved ([''USD'' \<mapsto> Fin 1] ++ [''INR'' \<mapsto> Fin 85]),
           Resolved ([''USD'' \<mapsto> Fin 1] ++ [''INR'' \<mapsto> Fin 85])]"
  using cached_rates_no_fetch [of 1700000300000
          "\<lparr>exchangeRates = [''USD'' \<mapsto> Fin 1, ''INR'' \<mapsto> Fin 85], lastFetchTime = 1700000000000\<rparr>"
          RequestError 1700000000000 1700000599999 "[''INR'' \<mapsto> Fin 85]" "[''INR'' \<mapsto> Fin 86]"]
        cached_rates_no_fetch [of 0 initial_state RequestError 1700000000000 1700000599999
          "[''INR'' \<mapsto> Fin 85]" "[''INR'' \<mapsto> Fin 86]"]
  by (simp add: initial_state_def CACHE_DURATION_def)

section \<open>Failed fetches\<close>



text \<open>
  The four kinds of failure give the caller one and the same value, the fallback table:
  nothing in it tells a failure from a success, or one failure from another.
\<close>

theorem failures_indistinguishable_counterexample:
  "promise (fetchExchangeRates 1700000000000 RequestError initial_state) = Resolved fallbackRates
   \<and> fetchExchangeRates 1700000000000 RequestError initial_state
       = fetchExchangeRates 1700000000000 RequestTimeout initial_state
   \<and> fetchExchangeRates 1700000000000 RequestError initial_state
       = fetchExchangeRates 1700000000000 (ResponseEnd Unparseable) initial_state
   \<and> fetchExchangeRates 1700000000000 RequestError initial_state
       = fetchExchangeRates 1700000000000 (ResponseEnd NoRates) initial_state"
  by (simp add: fetchExchangeRates_def initial_state_def CACHE_DURATION_def)

text \<open>
  Claim C5, as the code has it. A failure of the provider fetch is absorbed inside
  \<open>fetchExchangeRates\<close>: the promise resolves with the fallback table, never rejects,
  and the result is the same whatever the failure was.
\<close>

theorem failure_absorbed:
  assumes "\<not> now - lastFetchTime s < CACHE_DURATION" and "is_failure oc" and "is_failure oc'"
  shows "promise (fetchExchangeRates now oc s) = Resolved fallbackRates
       \<and> (\<forall>e. promise (fetchExchangeRates now oc s) \<noteq> Rejected e)
       \<and> fetchExchangeRates now oc s = fetchExchangeRates now oc' s"
  using assms by (simp add: failure_result)

theorem failure_absorbed_witness:
  "\<not> 1700000000000 - lastFetchTime initial_state < CACHE_DURATION
   \<and> is_failure (ResponseEnd JsonNull) \<and> is_failure RequestTimeout
   \<and> promise (fetchExchangeRates 1700000000000 (ResponseEnd JsonNull) initial_state)
       = Resolved fallbackRates
   \<and> fetchExchangeRates 1700000000000 (ResponseEnd JsonNull) initial_state
       = fetchExchangeRates 1700000000000 RequestTimeout initial_state"
proof -
  have h1: "\<not> 1700000000000 - lastFetchTime initial_state < CACHE_DURATION"
    by (simp add: initial_state_def CACHE_DURATION_def)
  have h2: "is_failure (ResponseEnd JsonNull)" and h3: "is_failure RequestTimeout"
    by (simp_all add: is_failure_def)
  from failure_absorbed [OF h1 h2 h3] h1 h2 h3 show ?thesis by blast
qed

section \<open>Requests\<close>

text \<open>
  Claim C8. A conversion request whose amount parses to a negative number is answered with
  status 400, without a conversion, a provider request or a change of state; when
  \<open>from\<close>, \<open>to\<close> and \<open>amount\<close> are all given, the error is the one about the amount.
\<close>

theorem negative_amount_rejected:
  assumes "req_method req \<noteq> ''OPTIONS''" and "pathname req = ''/convert''"
    and "lt_zero (parseFloat (q_amount req))"
  shows "(\<exists>m. server parseFloat toUpperCase req now later oc s = (ErrorJson 400 m, s, False))
       \<and> status_code (fst (server parseFloat toUpperCase req now later oc s)) = 400
       \<and> (\<not> q_not (q_from req) \<and> \<not> q_not (q_to req) \<and> \<not> q_not (q_amount req) \<longrightarrow>
            server parseFloat toUpperCase req now later oc s
              = (ErrorJson 400 ''Amount must be a valid positive number'', s, False))"
  using assms by (simp add: server_def status_code_def Let_def)

theorem negative_amount_rejected_witness:
  "req_method \<lparr>req_method = ''GET'', pathname = ''/convert'', q_from = Single ''USD'',
       q_to = Single ''INR'', q_amount = Single ''-5''\<rparr> \<noteq> ''OPTIONS''
   \<and> lt_zero (Fin (- 5))
   \<and> server (\<lambda>q. Fin (- 5)) (\<lambda>c. c)
        \<lparr>req_method = ''GET'', pathname = ''/convert'', q_from = Single ''USD'',
         q_to = Single ''INR'', q_amount = Single ''-5''\<rparr>
        1700000000000 1700000000100 (ResponseEnd (Rates [''INR'' \<mapsto> Fin 85])) initial_state
      = (ErrorJson 400 ''Amount must be a valid positive number'', initial_state, False)"
  using negative_amount_rejected [of
      "\<lparr>req_method = ''GET'', pathname = ''/convert'', q_from = Single ''USD'',
         q_to = Single ''INR'', q_amount = Single ''-5''\<rparr>"
      "\<lambda>q. Fin (- 5)" "\<lambda>c. c" 1700000000000 1700000000100
      "ResponseEnd (Rates [''INR'' \<mapsto> Fin 85])" initial_state]
  by (simp add: lt_zero_def q_not_def)



section \<open>The error of one conversion\<close>

text \<open>
  The arithmetic of \<open>convertCurrency\<close> for a non-negative amount and positive rates: a
  quotient, two products, \<open>Math.round\<close> and a quotient, each rounded to binary64. While
  the exact product stays below \<open>10 ^ 12\<close> the value handed to \<open>Math.round\<close> is within
  \<open>3 / 80\<close> of the exact product in cents, and the result within \<open>11 / 2000\<close> of the
  exact product.
\<close>

lemma fl_error_small:
  assumes "0 \<le> x" "x \<le> b" "b \<le> 2 ^ 1000"
  shows "\<exists>y. fl x = Fin y \<and> 0 \<le> y \<and> \<bar>y - x\<bar> \<le> b / 2 ^ 53 + 1 / 2 ^ 1075"
proof -
  from assms have "x \<le> 2 ^ 1000" by linarith
  from fl_error [OF assms(1) this] obtain y
    where y: "fl x = Fin y" "0 \<le> y" "\<bar>y - x\<bar> \<le> x / 2 ^ 53 + 1 / 2 ^ 1075" by blast
  have "x / 2 ^ 53 \<le> b / 2 ^ 53" using assms(2) by (intro divide_right_mono) simp_all
  with y show ?thesis by (intro exI [of _ y]) linarith
qed

lemma conversion_arith:
  assumes a: "0 \<le> a" and rf: "0 < rf" and rt: "1 / 10 ^ 9 \<le> rt" "rt \<le> 10 ^ 9"
    and X: "a / rf * rt \<le> 10 ^ 12"
  shows "\<exists>x3 c. js_mul (js_mul (js_div (Fin a) (Fin rf)) (Fin rt)) (Fin 100) = Fin x3
           \<and> js_div (Fin (of_int \<lfloor>x3 + 1 / 2\<rfloor>)) (Fin 100) = Fin c
           \<and> \<bar>x3 - a / rf * rt * 100\<bar> \<le> 3 / 80
           \<and> 0 \<le> c \<and> \<bar>c - a / rf * rt\<bar> \<le> 11 / 2000"
proof -
  define q where "q = a / rf"
  define X where "X = a / rf * rt"
  have "(0::rat) < 1 / 10 ^ 9" by simp
  with rt(1) have rtpos: "0 < rt" by linarith
  have qnn: "0 \<le> q" using a rf by (simp add: q_def)
  have Xq: "X = q * rt" by (simp add: X_def q_def)
  have Xnn: "0 \<le> X" using qnn rtpos by (simp add: Xq)
  have Xle: "X \<le> 10 ^ 12" using X by (simp add: X_def)
  have "q * (1 / 10 ^ 9) \<le> q * rt" using rt(1) qnn by (intro mult_left_mono)
  with Xle have qle: "q \<le> 10 ^ 21" by (simp add: Xq)
  \<comment> \<open>the quotient\<close>
  have "(10::rat) ^ 21 \<le> 2 ^ 1000" by simp
  with qle have "q \<le> 2 ^ 1000" by linarith
  from fl_error [OF qnn this] obtain x1
    where x1: "fl q = Fin x1" "0 \<le> x1" and e1: "\<bar>x1 - q\<bar> \<le> q / 2 ^ 53 + 1 / 2 ^ 1075"
    by blast
  \<comment> \<open>the product with the rate\<close>
  define p where "p = x1 * rt"
  have pnn: "0 \<le> p" using x1(2) rtpos by (simp add: p_def)
  have "p - X = (x1 - q) * rt" by (simp add: p_def Xq algebra_simps)
  then have "\<bar>p - X\<bar> = \<bar>x1 - q\<bar> * rt" using rtpos by (simp add: abs_mult)
  also have "\<dots> \<le> (q / 2 ^ 53 + 1 / 2 ^ 1075) * rt"
    using e1 rtpos by (intro mult_right_mono) simp_all
  also have "\<dots> = X / 2 ^ 53 + rt / 2 ^ 1075" by (simp add: Xq algebra_simps)
  finally have "\<bar>p - X\<bar> \<le> X / 2 ^ 53 + rt / 2 ^ 1075" .
  moreover have "X / 2 ^ 53 \<le> 10 ^ 12 / 2 ^ 53" using Xle by (intro divide_right_mono) simp_all
  moreover have "rt / 2 ^ 1075 \<le> 10 ^ 9 / 2 ^ 1075" using rt(2) by (intro divide_right_mono) simp_all
  moreover have "(10::rat) ^ 12 / 2 ^ 53 + 10 ^ 9 / 2 ^ 1075 \<le> 1 / 8000" by simp
  ultimately have ep: "\<bar>p - X\<bar> \<le> 1 / 8000" by linarith
  have ple: "p \<le> 10 ^ 12 + 1" using ep Xle by linarith
  have "(10::rat) ^ 12 + 1 \<le> 2 ^ 1000" by simp
  from fl_error_small [OF pnn ple this] obtain x2
    where x2: "fl p = Fin x2" "0 \<le> x2" "\<bar>x2 - p\<bar> \<le> (10 ^ 12 + 1) / 2 ^ 53 + 1 / 2 ^ 1075" by blast
  have "((10::rat) ^ 12 + 1) / 2 ^ 53 + 1 / 2 ^ 1075 \<le> 1 / 8000" by simp
  with x2(3) ep have e2: "\<bar>x2 - X\<bar> \<le> 1 / 4000" by linarith
  \<comment> \<open>the product with 100\<close>
  define s where "s = x2 * 100"
  have snn: "0 \<le> s" using x2(2) by (simp add: s_def)
  have "x2 \<le> 10 ^ 12 + 1" using e2 Xle by linarith
  then have sle: "s \<le> 10 ^ 14 + 100" unfolding s_def by simp
  have "(10::rat) ^ 14 + 100 \<le> 2 ^ 1000" by simp
  from fl_error_small [OF snn sle this] obtain x3
    where x3: "fl s = Fin x3" "0 \<le> x3" "\<bar>x3 - s\<bar> \<le> (10 ^ 14 + 100) / 2 ^ 53 + 1 / 2 ^ 1075" by blast
  have "((10::rat) ^ 14 + 100) / 2 ^ 53 + 1 / 2 ^ 1075 \<le> 1 / 80" by simp
  with x3(3) e2 have e3: "\<bar>x3 - X * 100\<bar> \<le> 3 / 80" unfolding s_def by linarith
  \<comment> \<open>the rounding and the quotient by 100\<close>
  define n where "n = \<lfloor>x3 + 1 / 2\<rfloor>"
  have nb: "of_int n \<le> x3 + 1 / 2" "x3 + 1 / 2 < of_int n + 1" unfolding n_def by linarith+
  have nnn: "0 \<le> n" using x3(2) by (simp add: n_def)
  define t :: rat where "t = of_int n / 100"
  have tnn: "0 \<le> t" using nnn by (simp add: t_def)
  have tX: "\<bar>t - X\<bar> \<le> 43 / 8000" using nb e3 unfolding t_def by linarith
  have tle: "t \<le> 10 ^ 12 + 1" using tX Xle by linarith
  from fl_error_small [OF tnn tle \<open>(10::rat) ^ 12 + 1 \<le> 2 ^ 1000\<close>] obtain c
    where c: "fl t = Fin c" "0 \<le> c" "\<bar>c - t\<bar> \<le> (10 ^ 12 + 1) / 2 ^ 53 + 1 / 2 ^ 1075" by blast
  from c(3) \<open>((10::rat) ^ 12 + 1) / 2 ^ 53 + 1 / 2 ^ 1075 \<le> 1 / 8000\<close> tX
  have ec: "\<bar>c - X\<bar> \<le> 11 / 2000" by linarith
  have r1: "js_mul (js_mul (js_div (Fin a) (Fin rf)) (Fin rt)) (Fin 100) = Fin x3"
    using rf x1(1) x2(1) x3(1) by (simp add: js_div_def js_mul_def q_def p_def s_def)
  have r2: "js_div (Fin (of_int \<lfloor>x3 + 1 / 2\<rfloor>)) (Fin 100) = Fin c"
    using c(1) by (simp add: js_div_def t_def n_def)
  from r1 r2 e3 ec c(2) show ?thesis unfolding X_def by blast
qed

text \<open>Two values less than one apart round to the same integer or to neighbours.\<close>

lemma round_close:
  fixes x y :: rat
  assumes "\<bar>x - y\<bar> < 1"
  shows "\<bar>\<lfloor>x + 1 / 2\<rfloor> - \<lfloor>y + 1 / 2\<rfloor>\<bar> \<le> 1"
proof -
  define m where "m = \<lfloor>x + 1 / 2\<rfloor>"
  define n where "n = \<lfloor>y + 1 / 2\<rfloor>"
  have fx: "of_int m \<le> x + 1 / 2" "x + 1 / 2 < of_int m + 1" unfolding m_def by linarith+
  have fy: "of_int n \<le> y + 1 / 2" "y + 1 / 2 < of_int n + 1" unfolding n_def by linarith+
  from fx fy assms have "(of_int m :: rat) < of_int (n + 2)" "(of_int n :: rat) < of_int (m + 2)"
    by simp_all
  then have "m < n + 2" "n < m + 2" by (simp_all only: of_int_less_iff)
  then show ?thesis unfolding m_def [symmetric] n_def [symmetric] by linarith
qed

lemma cents_close:
  fixes x X :: rat
  assumes "\<bar>x - X * 100\<bar> < 1"
  shows "\<bar>of_int \<lfloor>x + 1 / 2\<rfloor> / 100 - round_half_up_2dp X\<bar> \<le> 1 / 100"
proof -
  from round_close [OF assms] have "\<bar>\<lfloor>x + 1 / 2\<rfloor> - \<lfloor>X * 100 + 1 / 2\<rfloor>\<bar> \<le> 1" .
  then have "\<bar>(of_int \<lfloor>x + 1 / 2\<rfloor> :: rat) - of_int \<lfloor>X * 100 + 1 / 2\<rfloor>\<bar> \<le> 1"
    by (metis of_int_abs of_int_diff of_int_le_1_iff)
  then show ?thesis unfolding round_half_up_2dp_def by linarith
qed

lemma conversion_bound:
  assumes "rates from = Some (Fin rf)" and "rates to = Some (Fin rt)"
    and "0 \<le> a" and "0 < rf" and "1 / 10 ^ 9 \<le> rt" and "rt \<le> 10 ^ 9"
    and "a / rf * rt \<le> 10 ^ 12"
  shows "\<exists>x3 c. js_mul (js_mul (js_div (Fin a) (Fin rf)) (Fin rt)) (Fin 100) = Fin x3
           \<and> convert_with rates from to (Fin a) = Converted (Fin c)
           \<and> fl (of_int \<lfloor>x3 + 1 / 2\<rfloor> / 100) = Fin c
           \<and> \<bar>x3 - a / rf * rt * 100\<bar> \<le> 3 / 80
           \<and> 0 \<le> c \<and> \<bar>c - a / rf * rt\<bar> \<le> 11 / 2000"
proof -
  from conversion_arith [OF assms(3-7)] obtain x3 c
    where h: "js_mul (js_mul (js_div (Fin a) (Fin rf)) (Fin rt)) (Fin 100) = Fin x3"
      "js_div (Fin (of_int \<lfloor>x3 + 1 / 2\<rfloor>)) (Fin 100) = Fin c"
      "\<bar>x3 - a / rf * rt * 100\<bar> \<le> 3 / 80" "0 \<le> c" "\<bar>c - a / rf * rt\<bar> \<le> 11 / 2000"
    by blast
  have "(0::rat) < 1 / 10 ^ 9" by simp
  with assms(5) have "0 < rt" by linarith
  then have t: "truthy (Fin rf)" "truthy (Fin rt)" using assms(4) by (simp_all add: truthy_def)
  have c: "convert_with rates from to (Fin a) = Converted (Fin c)"
    using assms(1,2) t h(1,2) by (simp add: convert_with_def js_not_def Let_def Math_round_def)
  have f: "fl (of_int \<lfloor>x3 + 1 / 2\<rfloor> / 100) = Fin c" using h(2) by (simp add: js_div_def)
  from h c f show ?thesis by blast
qed

section \<open>Evaluations\<close>

text \<open>The four inexact literals of the fallback table.\<close>

lemma lit_EUR: "fl (23 / 25) = Fin (8286623314361713 / 9007199254740992)"
  by (rule fl_eval [where k = "-1" and m = 8286623314361713])
     (simp_all add: round_half_even_def Let_def floor_rat_numeral)

lemma lit_GBP: "fl (39 / 50) = Fin (3512807709348987 / 4503599627370496)"
  by (rule fl_eval [where k = "-1" and m = 7025615418697974])
     (simp_all add: round_half_even_def Let_def floor_rat_numeral)

lemma lit_JPY: "fl (1563 / 10) = Fin (2749658678742221 / 17592186044416)"
  by (rule fl_eval [where k = 7 and m = 5499317357484442])
     (simp_all add: round_half_even_def Let_def floor_rat_numeral)

lemma lit_AED: "fl (367 / 100) = Fin (2066026329056215 / 562949953421312)"
  by (rule fl_eval [where k = 1 and m = 8264105316224860])
     (simp_all add: round_half_even_def Let_def floor_rat_numeral)

lemma amount_48_4: "fl (242 / 5) = Fin (6811694436397875 / 140737488355328)"
  by (rule fl_eval [where k = 5 and m = 6811694436397875])
     (simp_all add: round_half_even_def Let_def floor_rat_numeral)

text \<open>Converting 48.4 rupees to yen.\<close>

lemma inr_jpy_1: "fl (6811694436397875 / 12384898975268864) = Fin (4953959590107545 / 9007199254740992)"
  by (rule fl_eval [where k = "-1" and m = 4953959590107545])
     (simp_all add: round_half_even_def Let_def floor_rat_numeral)

lemma inr_jpy_2: "fl (13621697981077466903454722157445 / 158456325028528675187087900672) = Fin (6049249093232885 / 70368744177664)"
  by (rule fl_eval [where k = 6 and m = 6049249093232885])
     (simp_all add: round_half_even_def Let_def floor_rat_numeral)

lemma inr_jpy_3: "fl (151231227330822125 / 17592186044416) = Fin (4725975854088191 / 549755813888)"
  by (rule fl_eval [where k = 13 and m = 4725975854088191])
     (simp_all add: round_half_even_def Let_def floor_rat_numeral)

lemma inr_jpy_4: "fl (2149 / 25) = Fin (6048897249511997 / 70368744177664)"
  by (rule fl_eval [where k = 6 and m = 6048897249511997])
     (simp_all add: round_half_even_def Let_def floor_rat_numeral)

lemma conv_inr_jpy:
  "convert_with fallbackRates ''INR'' ''JPY'' (Fin (6811694436397875 / 140737488355328)) = Converted (Fin (6048897249511997 / 70368744177664))"
  by (simp add: convert_with_def fallbackRates_def js_not_def truthy_def js_div_def js_mul_def
        Math_round_def Let_def signed_inf_def floor_rat_numeral lit_EUR lit_GBP lit_JPY lit_AED
        inr_jpy_1 inr_jpy_2 inr_jpy_3 inr_jpy_4)

lemma cents_8597: "fl (8597 / 100) = Fin (3024800468476887 / 35184372088832)"
  by (rule fl_eval [where k = 6 and m = 6049600936953774])
     (simp_all add: round_half_even_def Let_def floor_rat_numeral)

text \<open>Converting \<open>2 ^ 1023\<close> dollars to rupees.\<close>

lemma usd_inr_huge_1: "fl (89884656743115795386465259539451236680898848947115328636715040578866337902750481566354238661203768010560056939935696678829394884407208311246423715319737062188883946712432742638151109800623047059726541476042502884419075341171231440736956555270413618581675255342293149119973622969239858152417678164812112068608) = Fin (89884656743115795386465259539451236680898848947115328636715040578866337902750481566354238661203768010560056939935696678829394884407208311246423715319737062188883946712432742638151109800623047059726541476042502884419075341171231440736956555270413618581675255342293149119973622969239858152417678164812112068608)"
  by (rule fl_eval [where k = 1023 and m = 4503599627370496])
     (simp_all add: round_half_even_def Let_def floor_rat_numeral)

lemma usd_inr_huge_2: "fl (7909849793394189994008942839471708827919098707346148920030923570940237735442042377839173002185931584929285010714341307736986749827834331389685286948136861472621787310694081352157297662454828141255935649891740253828878630023068366784852176863796398435187422470121797122557678821293107517412755678503465862037504) = PosInf"
  by (rule fl_eval_inf [where k = 1029 and m = 6192449487634432])
     (simp_all add: round_half_even_def Let_def floor_rat_numeral)

lemma conv_usd_inr_huge:
  "convert_with fallbackRates ''USD'' ''INR'' (Fin (89884656743115795386465259539451236680898848947115328636715040578866337902750481566354238661203768010560056939935696678829394884407208311246423715319737062188883946712432742638151109800623047059726541476042502884419075341171231440736956555270413618581675255342293149119973622969239858152417678164812112068608)) = Converted PosInf"
  by (simp add: convert_with_def fallbackRates_def js_not_def truthy_def js_div_def js_mul_def
        Math_round_def Let_def signed_inf_def floor_rat_numeral lit_EUR lit_GBP lit_JPY lit_AED
        usd_inr_huge_1 usd_inr_huge_2)

text \<open>Converting 1.875 rupees to rupees.\<close>

lemma inr_inr_1: "fl (15 / 704) = Fin (6141272219141585 / 288230376151711744)"
  by (rule fl_eval [where k = "-6" and m = 6141272219141585])
     (simp_all add: round_half_even_def Let_def floor_rat_numeral)

lemma inr_inr_2: "fl (67553994410557435 / 36028797018963968) = Fin (8444249301319679 / 4503599627370496)"
  by (rule fl_eval [where k = 0 and m = 8444249301319679])
     (simp_all add: round_half_even_def Let_def floor_rat_numeral)

lemma inr_inr_3: "fl (211106232532991975 / 1125899906842624) = Fin (6597069766655999 / 35184372088832)"
  by (rule fl_eval [where k = 7 and m = 6597069766655999])
     (simp_all add: round_half_even_def Let_def floor_rat_numeral)

lemma inr_inr_4: "fl (187 / 100) = Fin (2105432825795707 / 1125899906842624)"
  by (rule fl_eval [where k = 0 and m = 8421731303182828])
     (simp_all add: round_half_even_def Let_def floor_rat_numeral)

lemma conv_inr_inr:
  "convert_with fallbackRates ''INR'' ''INR'' (Fin (15 / 8)) = Converted (Fin (2105432825795707 / 1125899906842624))"
  by (simp add: convert_with_def fallbackRates_def js_not_def truthy_def js_div_def js_mul_def
        Math_round_def Let_def signed_inf_def floor_rat_numeral lit_EUR lit_GBP lit_JPY lit_AED
        inr_inr_1 inr_inr_2 inr_inr_3 inr_inr_4)

lemma cents_188: "fl (47 / 25) = Fin (2116691824864133 / 1125899906842624)"
  by (rule fl_eval [where k = 0 and m = 8466767299456532])
     (simp_all add: round_half_even_def Let_def floor_rat_numeral)

lemma times_100_1875: "fl (375 / 2) = Fin (375 / 2)"
  by (rule fl_eval [where k = 7 and m = 6597069766656000])
     (simp_all add: round_half_even_def Let_def floor_rat_numeral)

text \<open>Converting one rupee to dollars, and the cent back.\<close>

lemma inr_usd_1: "fl (1 / 88) = Fin (3275345183542179 / 288230376151711744)"
  by (rule fl_eval [where k = "-7" and m = 6550690367084358])
     (simp_all add: round_half_even_def Let_def floor_rat_numeral)

lemma inr_usd_2: "fl (3275345183542179 / 288230376151711744) = Fin (3275345183542179 / 288230376151711744)"
  by (rule fl_eval [where k = "-7" and m = 6550690367084358])
     (simp_all add: round_half_even_def Let_def floor_rat_numeral)

lemma inr_usd_3: "fl (81883629588554475 / 72057594037927936) = Fin (5117726849284655 / 4503599627370496)"
  by (rule fl_eval [where k = 0 and m = 5117726849284655])
     (simp_all add: round_half_even_def Let_def floor_rat_numeral)

lemma inr_usd_4: "fl (1 / 100) = Fin (5764607523034235 / 576460752303423488)"
  by (rule fl_eval [where k = "-7" and m = 5764607523034235])
     (simp_all add: round_half_even_def Let_def floor_rat_numeral)

lemma conv_inr_usd:
  "convert_with fallbackRates ''INR'' ''USD'' (Fin (1)) = Converted (Fin (5764607523034235 / 576460752303423488))"
  by (simp add: convert_with_def fallbackRates_def js_not_def truthy_def js_div_def js_mul_def
        Math_round_def Let_def signed_inf_def floor_rat_numeral lit_EUR lit_GBP lit_JPY lit_AED
        inr_usd_1 inr_usd_2 inr_usd_3 inr_usd_4)

text \<open>The cent converted back to rupees.\<close>

lemma usd_inr_1: "fl (5764607523034235 / 576460752303423488) = Fin (5764607523034235 / 576460752303423488)"
  by (rule fl_eval [where k = "-7" and m = 5764607523034235])
     (simp_all add: round_half_even_def Let_def floor_rat_numeral)

lemma usd_inr_2: "fl (63410682753376585 / 72057594037927936) = Fin (7926335344172073 / 9007199254740992)"
  by (rule fl_eval [where k = "-1" and m = 7926335344172073])
     (simp_all add: round_half_even_def Let_def floor_rat_numeral)

lemma usd_inr_3: "fl (198158383604301825 / 2251799813685248) = Fin (88)"
  by (rule fl_eval [where k = 6 and m = 6192449487634432])
     (simp_all add: round_half_even_def Let_def floor_rat_numeral)

lemma usd_inr_4: "fl (22 / 25) = Fin (7926335344172073 / 9007199254740992)"
  by (rule fl_eval [where k = "-1" and m = 7926335344172073])
     (simp_all add: round_half_even_def Let_def floor_rat_numeral)

lemma conv_usd_inr:
  "convert_with fallbackRates ''USD'' ''INR'' (Fin (5764607523034235 / 576460752303423488)) = Converted (Fin (7926335344172073 / 9007199254740992))"
  by (simp add: convert_with_def fallbackRates_def js_not_def truthy_def js_div_def js_mul_def
        Math_round_def Let_def signed_inf_def floor_rat_numeral lit_EUR lit_GBP lit_JPY lit_AED
        usd_inr_1 usd_inr_2 usd_inr_3 usd_inr_4)

text \<open>Converting \<open>2 * 10 ^ 15\<close> dirhams to euros.\<close>

lemma aed_eur_1: "fl (225179981368524800000000000000 / 413205265811243) = Fin (4359673024523161 / 8)"
  by (rule fl_eval [where k = 48 and m = 8719346049046322])
     (simp_all add: round_half_even_def Let_def floor_rat_numeral)

lemma aed_eur_2: "fl (36126968128007470084294900134793 / 72057594037927936) = Fin (8021798365122617 / 16)"
  by (rule fl_eval [where k = 48 and m = 8021798365122617])
     (simp_all add: round_half_even_def Let_def floor_rat_numeral)

lemma aed_eur_3: "fl (200544959128065425 / 4) = Fin (50136239782016360)"
  by (rule fl_eval [where k = 55 and m = 6267029972752045])
     (simp_all add: round_half_even_def Let_def floor_rat_numeral)

lemma aed_eur_4: "fl (2506811989100818 / 5) = Fin (4010899182561309 / 8)"
  by (rule fl_eval [where k = 48 and m = 8021798365122618])
     (simp_all add: round_half_even_def Let_def floor_rat_numeral)

lemma conv_aed_eur:
  "convert_with fallbackRates ''AED'' ''EUR'' (Fin (2000000000000000)) = Converted (Fin (4010899182561309 / 8))"
  by (simp add: convert_with_def fallbackRates_def js_not_def truthy_def js_div_def js_mul_def
        Math_round_def Let_def signed_inf_def floor_rat_numeral lit_EUR lit_GBP lit_JPY lit_AED
        aed_eur_1 aed_eur_2 aed_eur_3 aed_eur_4)

text \<open>Converting 2.5 dollars to euros.\<close>

lemma usd_eur_1: "fl (5 / 2) = Fin (5 / 2)"
  by (rule fl_eval [where k = 1 and m = 5629499534213120])
     (simp_all add: round_half_even_def Let_def floor_rat_numeral)

lemma usd_eur_2: "fl (41433116571808565 / 18014398509481984) = Fin (5179139571476071 / 2251799813685248)"
  by (rule fl_eval [where k = 1 and m = 5179139571476071])
     (simp_all add: round_half_even_def Let_def floor_rat_numeral)

lemma usd_eur_3: "fl (129478489286901775 / 562949953421312) = Fin (8092405580431361 / 35184372088832)"
  by (rule fl_eval [where k = 7 and m = 8092405580431361])
     (simp_all add: round_half_even_def Let_def floor_rat_numeral)

lemma usd_eur_4: "fl (23 / 10) = Fin (2589569785738035 / 1125899906842624)"
  by (rule fl_eval [where k = 1 and m = 5179139571476070])
     (simp_all add: round_half_even_def Let_def floor_rat_numeral)

lemma conv_usd_eur:
  "convert_with fallbackRates ''USD'' ''EUR'' (Fin (5 / 2)) = Converted (Fin (2589569785738035 / 1125899906842624))"
  by (simp add: convert_with_def fallbackRates_def js_not_def truthy_def js_div_def js_mul_def
        Math_round_def Let_def signed_inf_def floor_rat_numeral lit_EUR lit_GBP lit_JPY lit_AED
        usd_eur_1 usd_eur_2 usd_eur_3 usd_eur_4)

text \<open>\<open>Math.round(amount * 100) / 100\<close> for an amount up to \<open>10 ^ 12\<close>.\<close>

lemma round2_bound:
  assumes "0 \<le> a" and "a \<le> 10 ^ 12"
  shows "\<exists>y c. js_mul (Fin a) (Fin 100) = Fin y
           \<and> js_div (Math_round (js_mul (Fin a) (Fin 100))) (Fin 100) = Fin c
           \<and> fl (of_int \<lfloor>y + 1 / 2\<rfloor> / 100) = Fin c
           \<and> \<bar>y - a * 100\<bar> \<le> 1 / 80"
proof -
  define s where "s = a * 100"
  have snn: "0 \<le> s" and sle: "s \<le> 10 ^ 14" using assms by (simp_all add: s_def)
  have "(10::rat) ^ 14 \<le> 2 ^ 1000" by simp
  from fl_error_small [OF snn sle this] obtain y
    where y: "fl s = Fin y" "0 \<le> y" "\<bar>y - s\<bar> \<le> 10 ^ 14 / 2 ^ 53 + 1 / 2 ^ 1075" by blast
  have "(10::rat) ^ 14 / 2 ^ 53 + 1 / 2 ^ 1075 \<le> 1 / 80" by simp
  with y(3) have ey: "\<bar>y - s\<bar> \<le> 1 / 80" by linarith
  define t :: rat where "t = of_int \<lfloor>y + 1 / 2\<rfloor> / 100"
  have fy: "of_int \<lfloor>y + 1 / 2\<rfloor> \<le> y + 1 / 2" by linarith
  have "0 \<le> \<lfloor>y + 1 / 2\<rfloor>" using y(2) by simp
  then have tnn: "0 \<le> t" by (simp add: t_def)
  have "y \<le> 10 ^ 14 + 1" using ey sle by linarith
  with fy have "of_int \<lfloor>y + 1 / 2\<rfloor> \<le> (10 ^ 14 + 2 :: rat)" by linarith
  then have tle: "t \<le> 10 ^ 12 + 1" unfolding t_def by simp
  have "(10::rat) ^ 12 + 1 \<le> 2 ^ 1000" by simp
  from fl_error_small [OF tnn tle this] obtain c where c: "fl t = Fin c" by blast
  have m: "js_mul (Fin a) (Fin 100) = Fin y" using y(1) by (simp add: js_mul_def s_def)
  have d: "js_div (Math_round (js_mul (Fin a) (Fin 100))) (Fin 100) = Fin c"
    using c by (simp add: m Math_round_def js_div_def t_def)
  from m d c ey show ?thesis unfolding t_def s_def by blast
qed

section \<open>The conversion\<close>

text \<open>
  48.4 rupees are 85.96 yen for \<open>convertCurrency\<close>, while the exact product of the three
  binary64 values, like that of the three decimals, rounds half up to 85.97. And
  \<open>2 ^ 1023\<close> dollars are infinitely many rupees.
\<close>

theorem rounding_counterexample:
  "fl (242 / 5) = Fin (6811694436397875 / 140737488355328)
   \<and> fallbackRates ''INR'' = Some (Fin 88)
   \<and> fallbackRates ''JPY'' = Some (Fin (2749658678742221 / 17592186044416))
   \<and> convert_with fallbackRates ''INR'' ''JPY'' (Fin (6811694436397875 / 140737488355328))
       = Converted (Fin (6048897249511997 / 70368744177664))
   \<and> fl (8596 / 100) = Fin (6048897249511997 / 70368744177664)
   \<and> round_half_up_2dp (6811694436397875 / 140737488355328 / 88 * (2749658678742221 / 17592186044416)) = 8597 / 100
   \<and> round_half_up_2dp (484 / 10 / 88 * (1563 / 10)) = 8597 / 100
   \<and> fl (8597 / 100) = Fin (3024800468476887 / 35184372088832)
   \<and> (6048897249511997 / 70368744177664 :: rat) \<noteq> 3024800468476887 / 35184372088832
   \<and> convert_with fallbackRates ''USD'' ''INR'' (Fin (2 ^ 1023)) = Converted PosInf"
proof -
  have t: "fallbackRates ''INR'' = Some (Fin 88)"
    "fallbackRates ''JPY'' = Some (Fin (2749658678742221 / 17592186044416))"
    by (simp_all add: fallbackRates_def lit_JPY)
  have r: "round_half_up_2dp (6811694436397875 / 140737488355328 / 88 * (2749658678742221 / 17592186044416)) = 8597 / 100"
    "round_half_up_2dp (484 / 10 / 88 * (1563 / 10)) = 8597 / 100"
    by (simp_all add: round_half_up_2dp_def floor_rat_numeral)
  have f: "fl (8596 / 100) = Fin (6048897249511997 / 70368744177664)" using inr_jpy_4 by simp
  have g: "fl (8597 / 100) = Fin (3024800468476887 / 35184372088832)" using cents_8597 by simp
  have n: "(6048897249511997 / 70368744177664 :: rat) \<noteq> 3024800468476887 / 35184372088832" by simp
  have h: "convert_with fallbackRates ''USD'' ''INR'' (Fin (2 ^ 1023)) = Converted PosInf"
    using conv_usd_inr_huge by simp
  from amount_48_4 t conv_inr_jpy f r g n h show ?thesis by blast
qed

text \<open>
  Claim C4, as the code has it. \<open>convertCurrency\<close> works on the table its fetch resolved
  with. When either code is missing from that table it returns \<open>null\<close>, and no default
  rate takes the place of the missing one. Otherwise, for a non-negative amount, a positive
  rate to divide by, a rate to multiply by between \<open>10 ^ 9\<close> and its inverse, and an exact
  product up to \<open>10 ^ 12\<close>, the result is \<open>Math.round(x * 100) / 100\<close> for the binary64
  value \<open>x * 100\<close> of \<open>amount / fromRate * toRate * 100\<close>: one rounding to cents, half up,
  after the whole computation. It is the binary64 value of a number of cents that is the
  exact product rounded half up to two places, or the cent next to it, and it is within
  0.0055 of the exact product.
\<close>

theorem conversion_result:
  "(rates from = None \<or> rates to = None \<longrightarrow> convert_with rates from to amount = NullInvalid)
   \<and> (rates from = Some (Fin rf) \<and> rates to = Some (Fin rt) \<and> 0 \<le> a \<and> 0 < rf
        \<and> 1 / 10 ^ 9 \<le> rt \<and> rt \<le> 10 ^ 9 \<and> a / rf * rt \<le> 10 ^ 12 \<longrightarrow>
        (\<exists>x c. js_mul (js_mul (js_div (Fin a) (Fin rf)) (Fin rt)) (Fin 100) = Fin x
           \<and> convert_with rates from to (Fin a) = Converted (Fin c)
           \<and> fl (of_int \<lfloor>x + 1 / 2\<rfloor> / 100) = Fin c
           \<and> \<bar>of_int \<lfloor>x + 1 / 2\<rfloor> / 100 - round_half_up_2dp (a / rf * rt)\<bar> \<le> 1 / 100
           \<and> \<bar>c - a / rf * rt\<bar> \<le> 11 / 2000))
   \<and> (promise (fetchExchangeRates now oc s) = Resolved rates \<longrightarrow>
        fst (convertCurrency from to amount now oc s) = convert_with rates from to amount)"
proof (intro conjI impI)
  assume "rates from = None \<or> rates to = None"
  then show "convert_with rates from to amount = NullInvalid"
    by (auto simp: convert_with_def js_not_def Let_def)
next
  assume h: "rates from = Some (Fin rf) \<and> rates to = Some (Fin rt) \<and> 0 \<le> a \<and> 0 < rf
        \<and> 1 / 10 ^ 9 \<le> rt \<and> rt \<le> 10 ^ 9 \<and> a / rf * rt \<le> 10 ^ 12"
  then have "\<exists>x3 c. js_mul (js_mul (js_div (Fin a) (Fin rf)) (Fin rt)) (Fin 100) = Fin x3
           \<and> convert_with rates from to (Fin a) = Converted (Fin c)
           \<and> fl (of_int \<lfloor>x3 + 1 / 2\<rfloor> / 100) = Fin c
           \<and> \<bar>x3 - a / rf * rt * 100\<bar> \<le> 3 / 80
           \<and> 0 \<le> c \<and> \<bar>c - a / rf * rt\<bar> \<le> 11 / 2000"
    by (intro conversion_bound) simp_all
  then obtain x c where b: "js_mul (js_mul (js_div (Fin a) (Fin rf)) (Fin rt)) (Fin 100) = Fin x"
      "convert_with rates from to (Fin a) = Converted (Fin c)"
      "fl (of_int \<lfloor>x + 1 / 2\<rfloor> / 100) = Fin c"
      "\<bar>x - a / rf * rt * 100\<bar> \<le> 3 / 80" "\<bar>c - a / rf * rt\<bar> \<le> 11 / 2000"
    by blast
  from b(4) have "\<bar>x - a / rf * rt * 100\<bar> < 1" by linarith
  then have "\<bar>of_int \<lfloor>x + 1 / 2\<rfloor> / 100 - round_half_up_2dp (a / rf * rt)\<bar> \<le> 1 / 100"
    by (rule cents_close)
  with b show "\<exists>x c. js_mul (js_mul (js_div (Fin a) (Fin rf)) (Fin rt)) (Fin 100) = Fin x
           \<and> convert_with rates from to (Fin a) = Converted (Fin c)
           \<and> fl (of_int \<lfloor>x + 1 / 2\<rfloor> / 100) = Fin c
           \<and> \<bar>of_int \<lfloor>x + 1 / 2\<rfloor> / 100 - round_half_up_2dp (a / rf * rt)\<bar> \<le> 1 / 100
           \<and> \<bar>c - a / rf * rt\<bar> \<le> 11 / 2000"
    by blast
next
  assume "promise (fetchExchangeRates now oc s) = Resolved rates"
  then show "fst (convertCurrency from to amount now oc s) = convert_with rates from to amount"
    by (simp add: convertCurrency_def Let_def)
qed

theorem conversion_result_witness:
  "fallbackRates ''XXX'' = None
   \<and> convert_with fallbackRates ''XXX'' ''USD'' (Fin 10) = NullInvalid
   \<and> fallbackRates ''USD'' = Some (Fin 1)
   \<and> fallbackRates ''EUR'' = Some (Fin (8286623314361713 / 9007199254740992))
   \<and> (0::rat) \<le> 5 / 2 \<and> (0::rat) < 1
   \<and> (1::rat) / 10 ^ 9 \<le> 8286623314361713 / 9007199254740992
   \<and> (8286623314361713 / 9007199254740992 :: rat) \<le> 10 ^ 9
   \<and> (5 / 2 / 1 * (8286623314361713 / 9007199254740992) :: rat) \<le> 10 ^ 12
   \<and> (\<exists>x c. js_mul (js_mul (js_div (Fin (5 / 2)) (Fin 1)) (Fin (8286623314361713 / 9007199254740992))) (Fin 100) = Fin x
           \<and> convert_with fallbackRates ''USD'' ''EUR'' (Fin (5 / 2)) = Converted (Fin c)
           \<and> fl (of_int \<lfloor>x + 1 / 2\<rfloor> / 100) = Fin c
           \<and> \<bar>of_int \<lfloor>x + 1 / 2\<rfloor> / 100
                - round_half_up_2dp (5 / 2 / 1 * (8286623314361713 / 9007199254740992))\<bar> \<le> 1 / 100
           \<and> \<bar>c - 5 / 2 / 1 * (8286623314361713 / 9007199254740992)\<bar> \<le> 11 / 2000)
   \<and> convert_with fallbackRates ''USD'' ''EUR'' (Fin (5 / 2)) = Converted (Fin (2589569785738035 / 1125899906842624))
   \<and> fl (230 / 100) = Fin (2589569785738035 / 1125899906842624)
   \<and> promise (fetchExchangeRates 1700000000000 RequestError initial_state) = Resolved fallbackRates
   \<and> fst (convertCurrency ''USD'' ''EUR'' (Fin (5 / 2)) 1700000000000 RequestError initial_state)
       = convert_with fallbackRates ''USD'' ''EUR'' (Fin (5 / 2))"
proof -
  have p: "promise (fetchExchangeRates 1700000000000 RequestError initial_state) = Resolved fallbackRates"
    by (simp add: fetchExchangeRates_def initial_state_def CACHE_DURATION_def)
  have l: "fallbackRates ''XXX'' = None" "fallbackRates ''USD'' = Some (Fin 1)"
      "fallbackRates ''EUR'' = Some (Fin (8286623314361713 / 9007199254740992))"
    by (simp_all add: fallbackRates_def lit_EUR lit_GBP lit_JPY lit_AED)
  have n: "(0::rat) \<le> 5 / 2" "(0::rat) < 1"
    "(1::rat) / 10 ^ 9 \<le> 8286623314361713 / 9007199254740992"
    "(8286623314361713 / 9007199254740992 :: rat) \<le> 10 ^ 9"
    "(5 / 2 / 1 * (8286623314361713 / 9007199254740992) :: rat) \<le> 10 ^ 12"
    by simp_all
  have f: "fl (230 / 100) = Fin (2589569785738035 / 1125899906842624)" using usd_eur_4 by simp
  note a = conversion_result [of fallbackRates "''XXX''" "''USD''" "Fin 10" 1 1 0
      0 RequestError initial_state]
  note b = conversion_result [of fallbackRates "''USD''" "''EUR''" "Fin (5 / 2)" 1
      "8286623314361713 / 9007199254740992" "5 / 2" 1700000000000 RequestError initial_state]
  from a l have g1: "convert_with fallbackRates ''XXX'' ''USD'' (Fin 10) = NullInvalid" by blast
  from b l n have g2: "\<exists>x c. js_mul (js_mul (js_div (Fin (5 / 2)) (Fin 1)) (Fin (8286623314361713 / 9007199254740992))) (Fin 100) = Fin x
           \<and> convert_with fallbackRates ''USD'' ''EUR'' (Fin (5 / 2)) = Converted (Fin c)
           \<and> fl (of_int \<lfloor>x + 1 / 2\<rfloor> / 100) = Fin c
           \<and> \<bar>of_int \<lfloor>x + 1 / 2\<rfloor> / 100
                - round_half_up_2dp (5 / 2 / 1 * (8286623314361713 / 9007199254740992))\<bar> \<le> 1 / 100
           \<and> \<bar>c - 5 / 2 / 1 * (8286623314361713 / 9007199254740992)\<bar> \<le> 11 / 2000" by blast
  from b p have g3:
    "fst (convertCurrency ''USD'' ''EUR'' (Fin (5 / 2)) 1700000000000 RequestError initial_state)
       = convert_with fallbackRates ''USD'' ''EUR'' (Fin (5 / 2))" by blast
  from g1 g2 g3 p l n f conv_usd_eur show ?thesis by blast
qed

text \<open>
  1.875 rupees converted to rupees are 1.87, where \<open>Math.round(1.875 * 100) / 100\<close> and
  the half-up rounding of 1.875 are 1.88: \<open>(1.875 / 88) * 88\<close> is just below 1.875.
\<close>

theorem self_conversion_counterexample:
  "fallbackRates ''INR'' = Some (Fin 88)
   \<and> convert_with fallbackRates ''INR'' ''INR'' (Fin (15 / 8))
       = Converted (Fin (2105432825795707 / 1125899906842624))
   \<and> fl (187 / 100) = Fin (2105432825795707 / 1125899906842624)
   \<and> js_div (Math_round (js_mul (Fin (15 / 8)) (Fin 100))) (Fin 100)
       = Fin (2116691824864133 / 1125899906842624)
   \<and> fl (188 / 100) = Fin (2116691824864133 / 1125899906842624)
   \<and> round_half_up_2dp (15 / 8) = 188 / 100
   \<and> (2105432825795707 / 1125899906842624 :: rat) \<noteq> 2116691824864133 / 1125899906842624"
proof -
  have t: "fallbackRates ''INR'' = Some (Fin 88)" by (simp add: fallbackRates_def)
  have f: "fl (187 / 100) = Fin (2105432825795707 / 1125899906842624)" using inr_inr_4 by simp
  have g: "fl (188 / 100) = Fin (2116691824864133 / 1125899906842624)" using cents_188 by simp
  have r: "js_div (Math_round (js_mul (Fin (15 / 8)) (Fin 100))) (Fin 100)
       = Fin (2116691824864133 / 1125899906842624)"
    using times_100_1875 cents_188
    by (simp add: js_mul_def js_div_def Math_round_def floor_rat_numeral)
  have h: "round_half_up_2dp (15 / 8) = 188 / 100"
    by (simp add: round_half_up_2dp_def floor_rat_numeral)
  have n: "(2105432825795707 / 1125899906842624 :: rat) \<noteq> 2116691824864133 / 1125899906842624" by simp
  from t conv_inr_inr f r g h n show ?thesis by blast
qed

text \<open>
  Claim C6, as the code has it. For a code whose rate lies between \<open>10 ^ 9\<close> and its
  inverse and an amount from 0 to \<open>10 ^ 12\<close>, converting the amount to the same code gives
  \<open>Math.round(amount * 100) / 100\<close> or the cent next to it: the two integers divided by
  100 differ by one at most, the result is the amount rounded half up to two places or a
  neighbouring cent, and it is within 0.0055 of the amount.
\<close>

theorem self_conversion:
  assumes "rates A = Some (Fin r)" and "1 / 10 ^ 9 \<le> r" and "r \<le> 10 ^ 9"
    and "0 \<le> a" and "a \<le> 10 ^ 12"
  shows "\<exists>x y c c'.
           js_mul (js_mul (js_div (Fin a) (Fin r)) (Fin r)) (Fin 100) = Fin x
         \<and> convert_with rates A A (Fin a) = Converted (Fin c)
         \<and> fl (of_int \<lfloor>x + 1 / 2\<rfloor> / 100) = Fin c
         \<and> js_mul (Fin a) (Fin 100) = Fin y
         \<and> js_div (Math_round (js_mul (Fin a) (Fin 100))) (Fin 100) = Fin c'
         \<and> fl (of_int \<lfloor>y + 1 / 2\<rfloor> / 100) = Fin c'
         \<and> \<bar>\<lfloor>x + 1 / 2\<rfloor> - \<lfloor>y + 1 / 2\<rfloor>\<bar> \<le> 1
         \<and> \<bar>of_int \<lfloor>x + 1 / 2\<rfloor> / 100 - round_half_up_2dp a\<bar> \<le> 1 / 100
         \<and> \<bar>c - a\<bar> \<le> 11 / 2000"
proof -
  have "(0::rat) < 1 / 10 ^ 9" by simp
  with assms(2) have rpos: "0 < r" by linarith
  then have X: "a / r * r = a" by simp
  then have "a / r * r \<le> 10 ^ 12" using assms(5) by simp
  from conversion_bound [of rates A r A r a, OF assms(1) assms(1) assms(4) rpos assms(2,3) this] obtain x c
    where b: "js_mul (js_mul (js_div (Fin a) (Fin r)) (Fin r)) (Fin 100) = Fin x"
      "convert_with rates A A (Fin a) = Converted (Fin c)"
      "fl (of_int \<lfloor>x + 1 / 2\<rfloor> / 100) = Fin c"
      "\<bar>x - a * 100\<bar> \<le> 3 / 80" "\<bar>c - a\<bar> \<le> 11 / 2000"
    unfolding X by blast
  from round2_bound [OF assms(4,5)] obtain y c'
    where d: "js_mul (Fin a) (Fin 100) = Fin y"
      "js_div (Math_round (js_mul (Fin a) (Fin 100))) (Fin 100) = Fin c'"
      "fl (of_int \<lfloor>y + 1 / 2\<rfloor> / 100) = Fin c'"
      "\<bar>y - a * 100\<bar> \<le> 1 / 80"
    by blast
  from b(4) d(4) have "\<bar>x - y\<bar> < 1" by linarith
  then have n: "\<bar>\<lfloor>x + 1 / 2\<rfloor> - \<lfloor>y + 1 / 2\<rfloor>\<bar> \<le> 1" by (rule round_close)
  from b(4) have "\<bar>x - a * 100\<bar> < 1" by linarith
  then have e: "\<bar>of_int \<lfloor>x + 1 / 2\<rfloor> / 100 - round_half_up_2dp a\<bar> \<le> 1 / 100"
    by (rule cents_close)
  from b(1,2,3,5) d(1,2,3) n e show ?thesis by blast
qed

theorem self_conversion_witness:
  "fallbackRates ''INR'' = Some (Fin 88)
   \<and> (1::rat) / 10 ^ 9 \<le> 88 \<and> (88::rat) \<le> 10 ^ 9 \<and> (0::rat) \<le> 15 / 8 \<and> (15 / 8 :: rat) \<le> 10 ^ 12
   \<and> (\<exists>x y c c'.
           js_mul (js_mul (js_div (Fin (15 / 8)) (Fin 88)) (Fin 88)) (Fin 100) = Fin x
         \<and> convert_with fallbackRates ''INR'' ''INR'' (Fin (15 / 8)) = Converted (Fin c)
         \<and> fl (of_int \<lfloor>x + 1 / 2\<rfloor> / 100) = Fin c
         \<and> js_mul (Fin (15 / 8)) (Fin 100) = Fin y
         \<and> js_div (Math_round (js_mul (Fin (15 / 8)) (Fin 100))) (Fin 100) = Fin c'
         \<and> fl (of_int \<lfloor>y + 1 / 2\<rfloor> / 100) = Fin c'
         \<and> \<bar>\<lfloor>x + 1 / 2\<rfloor> - \<lfloor>y + 1 / 2\<rfloor>\<bar> \<le> 1
         \<and> \<bar>of_int \<lfloor>x + 1 / 2\<rfloor> / 100 - round_half_up_2dp (15 / 8)\<bar> \<le> 1 / 100
         \<and> \<bar>c - 15 / 8\<bar> \<le> 11 / 2000)"
proof -
  have t: "fallbackRates ''INR'' = Some (Fin 88)" by (simp add: fallbackRates_def)
  have n: "(1::rat) / 10 ^ 9 \<le> 88" "(88::rat) \<le> 10 ^ 9" "(0::rat) \<le> 15 / 8"
    "(15 / 8 :: rat) \<le> 10 ^ 12" by simp_all
  from self_conversion [of fallbackRates "''INR''" 88 "15 / 8", OF t n] t n
  show ?thesis by blast
qed

text \<open>
  One rupee is a cent, and a cent is 0.88 rupees: the way back multiplies the half cent
  lost on the way out by the ratio of the rates. And \<open>2 * 10 ^ 15\<close> dirhams are a number
  of euros more than a cent away from the exact product: binary64 values that large are an
  eighth apart.
\<close>

theorem round_trip_counterexample:
  "convert_with fallbackRates ''INR'' ''USD'' (Fin 1)
       = Converted (Fin (5764607523034235 / 576460752303423488))
   \<and> fl (1 / 100) = Fin (5764607523034235 / 576460752303423488)
   \<and> convert_with fallbackRates ''USD'' ''INR'' (Fin (5764607523034235 / 576460752303423488))
       = Converted (Fin (7926335344172073 / 9007199254740992))
   \<and> fl (88 / 100) = Fin (7926335344172073 / 9007199254740992)
   \<and> \<not> \<bar>7926335344172073 / 9007199254740992 - 1\<bar> \<le> (2 / 100 :: rat)
   \<and> fallbackRates ''AED'' = Some (Fin (2066026329056215 / 562949953421312))
   \<and> fallbackRates ''EUR'' = Some (Fin (8286623314361713 / 9007199254740992))
   \<and> convert_with fallbackRates ''AED'' ''EUR'' (Fin (2 * 10 ^ 15))
       = Converted (Fin (4010899182561309 / 8))
   \<and> \<not> \<bar>4010899182561309 / 8 - 2 * 10 ^ 15 / (2066026329056215 / 562949953421312)
            * (8286623314361713 / 9007199254740992)\<bar> \<le> (1 / 100 :: rat)"
proof -
  have t: "fallbackRates ''AED'' = Some (Fin (2066026329056215 / 562949953421312))"
    "fallbackRates ''EUR'' = Some (Fin (8286623314361713 / 9007199254740992))"
    by (simp_all add: fallbackRates_def lit_EUR lit_GBP lit_JPY lit_AED)
  have f: "fl (1 / 100) = Fin (5764607523034235 / 576460752303423488)" using inr_usd_4 by simp
  have g: "fl (88 / 100) = Fin (7926335344172073 / 9007199254740992)" using usd_inr_4 by simp
  have n: "\<not> \<bar>7926335344172073 / 9007199254740992 - 1\<bar> \<le> (2 / 100 :: rat)" by simp
  have h: "convert_with fallbackRates ''AED'' ''EUR'' (Fin (2 * 10 ^ 15))
       = Converted (Fin (4010899182561309 / 8))" using conv_aed_eur by simp
  have m: "\<not> \<bar>4010899182561309 / 8 - 2 * 10 ^ 15 / (2066026329056215 / 562949953421312)
            * (8286623314361713 / 9007199254740992)\<bar> \<le> (1 / 100 :: rat)" by simp
  from conv_inr_usd f conv_usd_inr g n t h m show ?thesis by blast
qed

text \<open>
  Claim C7, as the code has it. For two codes with rates between \<open>10 ^ 9\<close> and its inverse
  and a non-negative amount, while the exact conversion of the amount and the amount plus
  the ratio of the rates stay below \<open>10 ^ 12\<close>: each hop is within 0.0055 of the exact
  conversion of what it was given, so going from A to B and back returns the amount within
  \<open>0.0055 + 0.0055 * rateA / rateB\<close>.
\<close>

theorem round_trip_bound:
  assumes "rates A = Some (Fin ra)" and "rates B = Some (Fin rb)"
    and "1 / 10 ^ 9 \<le> ra" and "ra \<le> 10 ^ 9" and "1 / 10 ^ 9 \<le> rb" and "rb \<le> 10 ^ 9"
    and "0 \<le> a" and "a / ra * rb \<le> 10 ^ 12" and "a + ra / rb \<le> 10 ^ 12"
  shows "\<exists>c1 c2. convert_with rates A B (Fin a) = Converted (Fin c1)
           \<and> convert_with rates B A (Fin c1) = Converted (Fin c2)
           \<and> \<bar>c1 - a / ra * rb\<bar> \<le> 11 / 2000
           \<and> \<bar>c2 - c1 / rb * ra\<bar> \<le> 11 / 2000
           \<and> \<bar>c2 - a\<bar> \<le> 11 / 2000 + 11 / 2000 * (ra / rb)"
proof -
  have "(0::rat) < 1 / 10 ^ 9" by simp
  with assms(3,5) have rapos: "0 < ra" and rbpos: "0 < rb" by linarith+
  have ratio: "0 < ra / rb" using rapos rbpos by simp
  from conversion_bound [of rates A ra B rb a, OF assms(1,2,7) rapos assms(5,6,8)] obtain c1
    where h1: "convert_with rates A B (Fin a) = Converted (Fin c1)"
      "0 \<le> c1" "\<bar>c1 - a / ra * rb\<bar> \<le> 11 / 2000"
    by blast
  have scaled: "c1 / rb * ra - a = (c1 - a / ra * rb) * (ra / rb)"
    using rapos rbpos by (simp add: field_simps)
  have "\<bar>c1 / rb * ra - a\<bar> = \<bar>c1 - a / ra * rb\<bar> * (ra / rb)"
    by (simp only: scaled abs_mult abs_of_pos [OF ratio])
  also have "\<dots> \<le> 11 / 2000 * (ra / rb)"
    using h1(3) ratio by (intro mult_right_mono) simp_all
  finally have e3: "\<bar>c1 / rb * ra - a\<bar> \<le> 11 / 2000 * (ra / rb)" .
  have "11 / 2000 * (ra / rb) \<le> ra / rb" using ratio by simp
  with e3 assms(9) have "c1 / rb * ra \<le> 10 ^ 12" by linarith
  from conversion_bound [of rates B rb A ra c1, OF assms(2,1) h1(2) rbpos assms(3,4) this] obtain c2
    where h2: "convert_with rates B A (Fin c1) = Converted (Fin c2)"
      "\<bar>c2 - c1 / rb * ra\<bar> \<le> 11 / 2000"
    by blast
  have "\<bar>c2 - a\<bar> \<le> \<bar>c2 - c1 / rb * ra\<bar> + \<bar>c1 / rb * ra - a\<bar>" by linarith
  then have e4: "\<bar>c2 - a\<bar> \<le> 11 / 2000 + 11 / 2000 * (ra / rb)" using h2(2) e3 by linarith
  from h1(1,3) h2 e4 show ?thesis by blast
qed

theorem round_trip_bound_witness:
  "fallbackRates ''INR'' = Some (Fin 88) \<and> fallbackRates ''USD'' = Some (Fin 1)
   \<and> (1::rat) / 10 ^ 9 \<le> 88 \<and> (88::rat) \<le> 10 ^ 9
   \<and> (1::rat) / 10 ^ 9 \<le> 1 \<and> (1::rat) \<le> 10 ^ 9
   \<and> (0::rat) \<le> 1 \<and> (1 / 88 * 1 :: rat) \<le> 10 ^ 12 \<and> (1 + 88 / 1 :: rat) \<le> 10 ^ 12
   \<and> (\<exists>c1 c2. convert_with fallbackRates ''INR'' ''USD'' (Fin 1) = Converted (Fin c1)
           \<and> convert_with fallbackRates ''USD'' ''INR'' (Fin c1) = Converted (Fin c2)
           \<and> \<bar>c1 - 1 / 88 * 1\<bar> \<le> 11 / 2000
           \<and> \<bar>c2 - c1 / 1 * 88\<bar> \<le> 11 / 2000
           \<and> \<bar>c2 - 1\<bar> \<le> 11 / 2000 + 11 / 2000 * (88 / 1))"
proof -
  have l: "fallbackRates ''INR'' = Some (Fin 88)" "fallbackRates ''USD'' = Some (Fin 1)"
    by (simp_all add: fallbackRates_def)
  have n: "(1::rat) / 10 ^ 9 \<le> 88" "(88::rat) \<le> 10 ^ 9"
    "(1::rat) / 10 ^ 9 \<le> 1" "(1::rat) \<le> 10 ^ 9"
    "(0::rat) \<le> 1" "(1 / 88 * 1 :: rat) \<le> 10 ^ 12" "(1 + 88 / 1 :: rat) \<le> 10 ^ 12"
    by simp_all
  from round_trip_bound [of fallbackRates "''INR''" 88 "''USD''" 1 1, OF l n] l n
  show ?thesis by blast
qed

end
